theory Spec2Isabelle
  imports Complex_Main "HOL-Library.AList"
begin

section \<open>The plugin server of kong\_pdk (server.py)\<close>

text \<open>
  A shallow embedding of \<^verbatim>\<open>src/kong_pdk/server.py\<close>. Every method of
  \<^verbatim>\<open>PluginServer\<close> is a function from the server state to an outcome and the
  state the call leaves behind. The state is returned in every case, since a Python
  method that raises keeps the mutations it made before the raise.

  A call is run to its end before the next one starts. What the outside world decides
  is an argument of the call: the readings of the clock (\<^verbatim>\<open>time.time()\<close>), the
  decoder \<^verbatim>\<open>json.loads\<close>, and the message that a channel receive hands back
  (\<open>None\<close>: no message arrives, and the call stays blocked in the receive). Calls of the
  logger are left out: they change no state of the server.
\<close>

subsection \<open>Python values, exceptions, outcomes\<close>

datatype pyval =
    PNone
  | PBool bool
  | PInt int
  | PFloat real
  | PStr string
  | PList "pyval list"
  | PTuple "pyval list"
  | PDict "(string \<times> pyval) list"

datatype exn =
    TypeError
  | ValueError
  | KeyError
  | AttributeError
  | PluginServerException pyval

datatype lock_name = I_lock | E_lock

text \<open>What a call that has not returned is waiting for: a semaphore, or a message on
  the channel of an event.\<close>

datatype wait = WaitLock lock_name | WaitRecv int

datatype 'a outcome = Return 'a | Raise exn | Block wait

text \<open>\<^verbatim>\<open>MSG_RET = 'ret'\<close>\<close>

definition MSG_RET :: pyval where
  "MSG_RET = PStr ''ret''"

text \<open>\<^verbatim>\<open>entities = ( 'service', 'consumer', 'route', 'plugin', 'credential', 'memory_stats' )\<close>\<close>

definition entities :: "string list" where
  "entities = [''service'', ''consumer'', ''route'', ''plugin'', ''credential'', ''memory_stats'']"

subsection \<open>String formatting with \<^verbatim>\<open>%\<close>\<close>

text \<open>
  Python's \<^verbatim>\<open>fmt % args\<close>, for the one conversion the format strings of the
  methods below use, \<^verbatim>\<open>%s\<close>. An argument with no conversion left to take it
  raises TypeError ("not all arguments converted during string formatting"), and so does
  a conversion with no argument left; \<^verbatim>\<open>%%\<close> is a percent sign; any other
  conversion character is a ValueError here.
\<close>

datatype fmt_arg = FStr string | FInt int

fun str_nat :: "nat \<Rightarrow> string" where
  "str_nat n =
     (if n < 10 then [''0123456789'' ! n]
      else str_nat (n div 10) @ [''0123456789'' ! (n mod 10)])"

declare str_nat.simps [simp del]

definition str_int :: "int \<Rightarrow> string" where
  "str_int i = (if i < 0 then CHR ''-'' # str_nat (nat (- i)) else str_nat (nat i))"

fun str_arg :: "fmt_arg \<Rightarrow> string" where
  "str_arg (FStr s) = s"
| "str_arg (FInt i) = str_int i"

fun py_format :: "string \<Rightarrow> fmt_arg list \<Rightarrow> exn + string" where
  "py_format [] args = (if args = [] then Inr [] else Inl TypeError)"
| "py_format [c] args =
     (if c = CHR ''%'' then Inl ValueError
      else if args = [] then Inr [c] else Inl TypeError)"
| "py_format (c # d # cs) args =
     (if c = CHR ''%'' then
        (if d = CHR ''s'' then
           (case args of
              [] \<Rightarrow> Inl TypeError
            | a # as \<Rightarrow>
                (case py_format cs as of
                   Inl ex \<Rightarrow> Inl ex
                 | Inr r \<Rightarrow> Inr (str_arg a @ r)))
         else if d = CHR ''%'' then
           (case py_format cs args of
              Inl ex \<Rightarrow> Inl ex
            | Inr r \<Rightarrow> Inr (CHR ''%'' # r))
         else Inl ValueError)
      else
        (case py_format (d # cs) args of
           Inl ex \<Rightarrow> Inl ex
         | Inr r \<Rightarrow> Inr (c # r)))"

subsection \<open>Dictionaries\<close>

text \<open>
  A Python dict is an association list in insertion order: \<^verbatim>\<open>k in d\<close> is
  \<open>map_of d k \<noteq> None\<close>, \<^verbatim>\<open>d[k] = v\<close> is \<open>AList.update k v d\<close> (a new key goes to
  the end, an old one keeps its place), and \<^verbatim>\<open>del d[k]\<close> raises KeyError on a key
  that is not there.
\<close>

definition del_item :: "'k \<Rightarrow> ('k \<times> 'v) list \<Rightarrow> exn + ('k \<times> 'v) list" where
  "del_item k d = (if map_of d k = None then Inl KeyError else Inr (AList.delete k d))"

subsection \<open>Plugin definitions and instances\<close>

text \<open>
  Modelled from the spec: the classes \<^verbatim>\<open>Module\<close> and \<^verbatim>\<open>Instance\<close> of
  \<^verbatim>\<open>kong_pdk/module.py\<close>, which server.py imports and which is not among the sources.
  The spec's PluginDefinition has a source modification time, a load time, the phases, a
  priority, a configuration schema and the times of the last instance start and close;
  its PluginInstance has the decoded configuration, a creation time and a last-active
  time. server.py reads them as the attributes \<^verbatim>\<open>mtime\<close>, \<^verbatim>\<open>load_time\<close>,
  \<^verbatim>\<open>phases\<close>, \<^verbatim>\<open>priority\<close>, \<^verbatim>\<open>schema\<close>, \<^verbatim>\<open>last_start_instance_time\<close>,
  \<^verbatim>\<open>last_close_instance_time\<close> and \<^verbatim>\<open>name\<close>, \<^verbatim>\<open>config\<close>, \<^verbatim>\<open>start_time\<close>,
  \<^verbatim>\<open>cls\<close>. The phases, priority and schema are only passed through by server.py and
  stay Python values. The plugin class \<^verbatim>\<open>cls\<close> is the list of the handler names it
  defines, which is all that \<^verbatim>\<open>getattr(cls, phase)\<close> asks of it.
\<close>

record plugin_module =
  mod_mtime :: real
  mod_load_time :: real
  mod_phases :: pyval
  mod_priority :: pyval
  mod_schema :: pyval
  mod_cls :: "string list"
  last_start_instance_time :: real
  last_close_instance_time :: real

record plugin_instance =
  ins_name :: string
  ins_config :: pyval
  ins_cls :: "string list"
  ins_start_time :: real
  ins_last_active :: real

text \<open>
  Modelled from the spec: \<^verbatim>\<open>Module.new(config)\<close>, the instantiation hook. It
  produces the instance for a decoded configuration, records its creation time, and
  updates the definition's last-start time ("the two timestamp fields, updated when an
  instance of this definition starts/closes"). The new instance's last-active time is
  its creation time.
\<close>

definition module_new ::
  "string \<Rightarrow> plugin_module \<Rightarrow> pyval \<Rightarrow> real \<Rightarrow> plugin_instance \<times> plugin_module" where
  "module_new name plugin config now =
     (\<lparr>ins_name = name, ins_config = config, ins_cls = mod_cls plugin,
       ins_start_time = now, ins_last_active = now\<rparr>,
      plugin\<lparr>last_start_instance_time := now\<rparr>)"

text \<open>
  Modelled from the spec: \<^verbatim>\<open>Instance.reset_expire_ts()\<close> refreshes the last-active
  time, and \<^verbatim>\<open>Instance.is_expired(ttl)\<close> holds for an "instance whose idle duration
  exceeds the ttl".
\<close>

definition reset_expire_ts :: "real \<Rightarrow> plugin_instance \<Rightarrow> plugin_instance" where
  "reset_expire_ts now ins = ins\<lparr>ins_last_active := now\<rparr>"

definition is_expired :: "plugin_instance \<Rightarrow> real \<Rightarrow> real \<Rightarrow> bool" where
  "is_expired ins ttl now = (now - ins_last_active ins > ttl)"

text \<open>
  Modelled from the spec: subscript access \<^verbatim>\<open>ins['name']\<close> on an
  \<^verbatim>\<open>Instance\<close>. The instance is an object whose fields are attributes
  (\<^verbatim>\<open>instance_status\<close> reads \<^verbatim>\<open>ins.name\<close> and \<^verbatim>\<open>ins.config\<close>), and the spec
  names the subscript access of \<^verbatim>\<open>close_instance\<close> a defect next to the attribute
  access: the object has no \<^verbatim>\<open>__getitem__\<close>, and Python raises TypeError
  ("object is not subscriptable").
\<close>

definition instance_getitem :: "plugin_instance \<Rightarrow> string \<Rightarrow> exn + pyval" where
  "instance_getitem ins key = Inl TypeError"

text \<open>\<^verbatim>\<open>getattr(cls, phase)\<close>: the handler, or AttributeError.\<close>

definition getattr_cls :: "string list \<Rightarrow> string \<Rightarrow> exn + string" where
  "getattr_cls cls phase = (if phase \<in> set cls then Inr phase else Inl AttributeError)"

subsection \<open>The server state\<close>

text \<open>
  One end of the duplex channel of an event: a pipe end in multiprocessing mode, a
  gevent \<^verbatim>\<open>Channel\<close> otherwise. It remembers the handler its worker was launched
  with and the items the server has put into it.
\<close>

record channel =
  ch_pipe :: bool
  ch_handler :: string
  ch_sent :: "pyval list"

text \<open>
  The fields of \<^verbatim>\<open>PluginServer.__init__\<close>. The two semaphores are their counters
  (\<^verbatim>\<open>sem()\<close> starts at 1). \<open>close_cb_calls\<close> is the one field that the source does
  not have: it lists, in order, the ids of the instances whose close hook has been
  called, so that a call of the hook can be told from no call.
\<close>

record server =
  plugins :: "(string \<times> plugin_module) list"
  instances :: "(int \<times> plugin_instance) list"
  instance_id :: int
  i_lock :: nat
  events :: "(int \<times> channel) list"
  event_id :: int
  e_lock :: nat
  multiprocess :: bool
  close_cb_calls :: "int list"

definition init :: "(string \<times> plugin_module) list \<Rightarrow> bool \<Rightarrow> server" where
  "init loaded mp =
     \<lparr>plugins = loaded, instances = [], instance_id = 0, i_lock = 1,
      events = [], event_id = 0, e_lock = 1, multiprocess = mp, close_cb_calls = []\<rparr>"

text \<open>
  Modelled from the spec: \<^verbatim>\<open>Instance.close_cb()\<close>, the close hook of an instance.
  It belongs to the instance's definition, whose last-close time it updates.
\<close>

definition close_cb :: "int \<Rightarrow> plugin_instance \<Rightarrow> real \<Rightarrow> server \<Rightarrow> server" where
  "close_cb iid ins now s =
     s\<lparr>plugins := AList.map_entry (ins_name ins) (\<lambda>p. p\<lparr>last_close_instance_time := now\<rparr>) (plugins s),
       close_cb_calls := close_cb_calls s @ [iid]\<rparr>"

subsection \<open>Semaphores and \<^verbatim>\<open>locked_by\<close>\<close>

definition sem_value :: "lock_name \<Rightarrow> server \<Rightarrow> nat" where
  "sem_value l s = (case l of I_lock \<Rightarrow> i_lock s | E_lock \<Rightarrow> e_lock s)"

definition sem_set :: "lock_name \<Rightarrow> nat \<Rightarrow> server \<Rightarrow> server" where
  "sem_set l n s = (case l of I_lock \<Rightarrow> s\<lparr>i_lock := n\<rparr> | E_lock \<Rightarrow> s\<lparr>e_lock := n\<rparr>)"

text \<open>\<^verbatim>\<open>lock.acquire()\<close> takes one unit of the counter, and waits when there is none
  (\<open>None\<close>); \<^verbatim>\<open>lock.release()\<close> gives one back.\<close>

definition acquire :: "lock_name \<Rightarrow> server \<Rightarrow> server option" where
  "acquire l s = (if sem_value l s = 0 then None else Some (sem_set l (sem_value l s - 1) s))"

definition release :: "lock_name \<Rightarrow> server \<Rightarrow> server" where
  "release l s = sem_set l (sem_value l s + 1) s"

text \<open>
  The decorator: acquire, run the method, release on the way out, whether the method
  returned or raised. A method that is blocked inside has not released.
\<close>

definition locked_by ::
  "lock_name \<Rightarrow> (server \<Rightarrow> 'a outcome \<times> server) \<Rightarrow> server \<Rightarrow> 'a outcome \<times> server" where
  "locked_by lock_name fn s =
     (case acquire lock_name s of
        None \<Rightarrow> (Block (WaitLock lock_name), s)
      | Some s1 \<Rightarrow>
          (case fn s1 of
             (Raise ex, s2) \<Rightarrow> (Raise ex, release lock_name s2)
           | (Return r, s2) \<Rightarrow> (Return r, release lock_name s2)
           | (Block w, s2) \<Rightarrow> (Block w, s2)))"

text \<open>\<^verbatim>\<open>raise PluginServerException(fmt % args)\<close>: the message is formatted first, and a
  formatting error is what is raised then.\<close>

definition raise_PluginServerException :: "string \<Rightarrow> fmt_arg list \<Rightarrow> exn" where
  "raise_PluginServerException fmt args =
     (case py_format fmt args of Inl ex \<Rightarrow> ex | Inr msg \<Rightarrow> PluginServerException (PStr msg))"

subsection \<open>Registry and instance table\<close>

type_synonym result = "pyval \<times> pyval"

definition get_plugin_info :: "server \<Rightarrow> string \<Rightarrow> result outcome \<times> server" where
  "get_plugin_info s name =
     (case map_of (plugins s) name of
        None \<Rightarrow> (Raise (raise_PluginServerException '' not initizlied'' [FStr name]), s)
      | Some plugin \<Rightarrow>
          (Return
             (PDict
                [(''Name'', PStr name),
                 (''Phases'', mod_phases plugin),
                 (''Priority'', mod_priority plugin),
                 (''Schema'',
                    PDict
                      [(''name'', PStr name),
                       (''fields'',
                          PList
                            [PDict
                               [(''config'',
                                   PDict
                                     [(''type'', PStr ''record''),
                                      (''fields'', mod_schema plugin)])]])])],
              PNone),
           s))"

text \<open>The request of \<^verbatim>\<open>start_instance\<close>: \<^verbatim>\<open>cfg['Name']\<close> and the serialized
  \<^verbatim>\<open>cfg['Config']\<close>.\<close>

record cfg =
  cfg_Name :: string
  cfg_Config :: string

text \<open>
  \<open>loads\<close> is \<^verbatim>\<open>json.loads\<close>, \<open>t_new\<close> the clock when the instance is made and
  \<open>t_ret\<close> the clock read for \<^verbatim>\<open>StartTime\<close>.
\<close>

definition start_instance_body ::
  "(string \<Rightarrow> exn + pyval) \<Rightarrow> cfg \<Rightarrow> real \<Rightarrow> real \<Rightarrow> server \<Rightarrow> result outcome \<times> server" where
  "start_instance_body loads c t_new t_ret s =
     (let name = cfg_Name c in
      case map_of (plugins s) name of
        None \<Rightarrow> (Raise (raise_PluginServerException '' not initizlied'' [FStr name]), s)
      | Some plugin \<Rightarrow>
          (case loads (cfg_Config c) of
             Inl ex \<Rightarrow> (Raise ex, s)
           | Inr config \<Rightarrow>
               (let iid = instance_id s;
                    (ins, plugin') = module_new name plugin config t_new;
                    s1 = s\<lparr>plugins := AList.update name plugin' (plugins s)\<rparr>;
                    s2 = s1\<lparr>instances := AList.update iid ins (instances s1)\<rparr>;
                    s3 = s2\<lparr>instance_id := iid + 1\<rparr>
                in (Return
                      (PDict
                         [(''Name'', PStr name),
                          (''Id'', PInt iid),
                          (''Config'', config),
                          (''StartTime'', PFloat t_ret)],
                       PNone),
                    s3))))"

definition start_instance ::
  "server \<Rightarrow> (string \<Rightarrow> exn + pyval) \<Rightarrow> cfg \<Rightarrow> real \<Rightarrow> real \<Rightarrow> result outcome \<times> server" where
  "start_instance s loads c t_new t_ret = locked_by I_lock (start_instance_body loads c t_new t_ret) s"

definition instance_status :: "server \<Rightarrow> int \<Rightarrow> result outcome \<times> server" where
  "instance_status s iid =
     (case map_of (instances s) iid of
        None \<Rightarrow>
          (case py_format ''instance #%s not found'' [FInt iid] of
             Inl ex \<Rightarrow> (Raise ex, s)
           | Inr msg \<Rightarrow> (Return (PNone, PStr msg), s))
      | Some ins \<Rightarrow>
          (Return
             (PDict
                [(''Name'', PStr (ins_name ins)),
                 (''Id'', PInt iid),
                 (''Config'', ins_config ins),
                 (''StartTime'', PFloat (ins_start_time ins))],
              PNone),
           s))"

text \<open>\<open>now\<close> is the clock at the call of the close hook.\<close>

definition close_instance_body :: "int \<Rightarrow> real \<Rightarrow> server \<Rightarrow> result outcome \<times> server" where
  "close_instance_body iid now s =
     (case map_of (instances s) iid of
        None \<Rightarrow>
          (case py_format ''instance #%s not found'' [FInt iid] of
             Inl ex \<Rightarrow> (Raise ex, s)
           | Inr msg \<Rightarrow> (Return (PNone, PStr msg), s))
      | Some ins \<Rightarrow>
          (let s1 = close_cb iid ins now s in
           case del_item iid (instances s1) of
             Inl ex \<Rightarrow> (Raise ex, s1)
           | Inr d \<Rightarrow>
               (let s2 = s1\<lparr>instances := d\<rparr> in
                case instance_getitem ins ''name'' of
                  Inl ex \<Rightarrow> (Raise ex, s2)
                | Inr n \<Rightarrow>
                    (case instance_getitem ins ''config'' of
                       Inl ex \<Rightarrow> (Raise ex, s2)
                     | Inr cf \<Rightarrow>
                         (Return
                            (PDict [(''Name'', n), (''Id'', PInt iid), (''Config'', cf)],
                             PNone),
                          s2)))))"

definition close_instance :: "server \<Rightarrow> int \<Rightarrow> real \<Rightarrow> result outcome \<times> server" where
  "close_instance s iid now = locked_by I_lock (close_instance_body iid now) s"

text \<open>The truth value of a Python value, as \<^verbatim>\<open>if err:\<close> takes it.\<close>

fun truthy :: "pyval \<Rightarrow> bool" where
  "truthy PNone = False"
| "truthy (PBool b) = b"
| "truthy (PInt i) = (i \<noteq> 0)"
| "truthy (PFloat x) = (x \<noteq> 0)"
| "truthy (PStr str) = (str \<noteq> [])"
| "truthy (PList xs) = (xs \<noteq> [])"
| "truthy (PTuple xs) = (xs \<noteq> [])"
| "truthy (PDict d) = (d \<noteq> [])"

text \<open>
  \<^verbatim>\<open>get_status\<close>: for every plugin name, the status of every instance of the table
  (\<^verbatim>\<open>if err: raise PluginServerException(err)\<close>), then the plugin's own entry. \<open>pid\<close> is
  \<^verbatim>\<open>os.getpid()\<close>.
\<close>

fun get_status_instances :: "server \<Rightarrow> int list \<Rightarrow> pyval list outcome" where
  "get_status_instances s [] = Return []"
| "get_status_instances s (iid # iids) =
     (case fst (instance_status s iid) of
        Raise ex \<Rightarrow> Raise ex
      | Block w \<Rightarrow> Block w
      | Return (i, err) \<Rightarrow>
          (if truthy err then Raise (PluginServerException err)
           else
             (case get_status_instances s iids of
                Return is \<Rightarrow> Return (i # is)
              | r \<Rightarrow> r)))"

fun get_status_loop ::
  "server \<Rightarrow> string list \<Rightarrow> (string \<times> pyval) list \<Rightarrow> (string \<times> pyval) list outcome" where
  "get_status_loop s [] plugin_status = Return plugin_status"
| "get_status_loop s (name # names) plugin_status =
     (case get_status_instances s (map fst (instances s)) of
        Raise ex \<Rightarrow> Raise ex
      | Block w \<Rightarrow> Block w
      | Return insts \<Rightarrow>
          (case map_of (plugins s) name of
             None \<Rightarrow> Raise KeyError
           | Some plugin \<Rightarrow>
               get_status_loop s names
                 (AList.update name
                    (PDict
                       [(''Name'', PStr name),
                        (''Modtime'', PFloat (mod_mtime plugin)),
                        (''LoadTime'', PFloat (mod_load_time plugin)),
                        (''Instances'', PList insts),
                        (''LastStartInstance'', PFloat (last_start_instance_time plugin)),
                        (''LastCloseInstance'', PFloat (last_close_instance_time plugin))])
                    plugin_status)))"

definition get_status_body :: "int \<Rightarrow> server \<Rightarrow> result outcome \<times> server" where
  "get_status_body pid s =
     (case get_status_loop s (map fst (plugins s)) [] of
        Raise ex \<Rightarrow> (Raise ex, s)
      | Block w \<Rightarrow> (Block w, s)
      | Return plugin_status \<Rightarrow>
          (Return (PDict [(''Pid'', PInt pid), (''Plugins'', PDict plugin_status)], PNone), s))"

definition get_status :: "server \<Rightarrow> int \<Rightarrow> result outcome \<times> server" where
  "get_status s pid = locked_by I_lock (get_status_body pid) s"

subsection \<open>The expiry sweeper\<close>

text \<open>
  \<^verbatim>\<open>_clear_expired_plugins\<close> is a loop that never ends; \<open>clear_expired_plugins\<close> is
  one round of it, after the sleep: acquire the instance lock, visit the keys the table
  had at that moment, delete the expired instances, release. \<open>now\<close> is the clock of the
  round. Nothing in the round catches an exception, so a raise would leave the
  semaphore taken.
\<close>

fun clear_expired_loop :: "int list \<Rightarrow> real \<Rightarrow> real \<Rightarrow> server \<Rightarrow> result outcome \<times> server" where
  "clear_expired_loop [] ttl now s = (Return (PNone, PNone), s)"
| "clear_expired_loop (iid # keys) ttl now s =
     (case map_of (instances s) iid of
        None \<Rightarrow> (Raise KeyError, s)
      | Some instance \<Rightarrow>
          (if is_expired instance ttl now then
             (case del_item iid (instances s) of
                Inl ex \<Rightarrow> (Raise ex, s)
              | Inr d \<Rightarrow> clear_expired_loop keys ttl now (s\<lparr>instances := d\<rparr>))
           else clear_expired_loop keys ttl now s))"

definition clear_expired_plugins :: "server \<Rightarrow> real \<Rightarrow> real \<Rightarrow> result outcome \<times> server" where
  "clear_expired_plugins s ttl now =
     (case acquire I_lock s of
        None \<Rightarrow> (Block (WaitLock I_lock), s)
      | Some s1 \<Rightarrow>
          (case clear_expired_loop (map fst (instances s1)) ttl now s1 of
             (Return r, s2) \<Rightarrow> (Return r, release I_lock s2)
           | (r, s2) \<Rightarrow> (r, s2)))"

subsection \<open>Events: \<^verbatim>\<open>handle_event\<close> and \<^verbatim>\<open>_step\<close>\<close>

record event =
  ev_InstanceId :: int
  ev_EventName :: string

text \<open>
  \<open>t1\<close> is the clock at the first \<^verbatim>\<open>reset_expire_ts\<close>, \<open>r\<close> what \<^verbatim>\<open>ch.get()\<close>
  hands back, \<open>t2\<close> the clock at the second \<^verbatim>\<open>reset_expire_ts\<close>. The instance is an
  object that the table holds under \<open>iid\<close>, so refreshing it changes that entry. Both
  branches on \<^verbatim>\<open>self.multiprocess\<close> store the channel first and evaluate
  \<^verbatim>\<open>getattr(cls, phase)\<close> after that, among the arguments of the launch.
\<close>

definition handle_event_body ::
  "event \<Rightarrow> real \<Rightarrow> pyval option \<Rightarrow> real \<Rightarrow> server \<Rightarrow> result outcome \<times> server" where
  "handle_event_body ev t1 r t2 s =
     (let iid = ev_InstanceId ev in
      case map_of (instances s) iid of
        None \<Rightarrow> (Raise (raise_PluginServerException ''instance id %s not found'' [FInt iid]), s)
      | Some instance \<Rightarrow>
          (let s1 = s\<lparr>instances := AList.map_entry iid (reset_expire_ts t1) (instances s)\<rparr>;
               cls = ins_cls instance;
               phase = ev_EventName ev;
               eid = event_id s1;
               s2 = s1\<lparr>event_id := eid + 1\<rparr>;
               ch = \<lparr>ch_pipe = multiprocess s2, ch_handler = phase, ch_sent = []\<rparr>;
               s3 = s2\<lparr>events := AList.update eid ch (events s2)\<rparr>
           in case getattr_cls cls phase of
                Inl ex \<Rightarrow> (Raise ex, s3)
              | Inr handler \<Rightarrow>
                  (case r of
                     None \<Rightarrow> (Block (WaitRecv eid), s3)
                   | Some msg \<Rightarrow>
                       (let s4 = s3\<lparr>instances :=
                                     AList.map_entry iid (reset_expire_ts t2) (instances s3)\<rparr>
                        in (Return (PDict [(''Data'', msg), (''EventId'', PInt eid)], PNone),
                            s4)))))"

definition handle_event ::
  "server \<Rightarrow> event \<Rightarrow> real \<Rightarrow> pyval option \<Rightarrow> real \<Rightarrow> result outcome \<times> server" where
  "handle_event s ev t1 r t2 = locked_by E_lock (handle_event_body ev t1 r t2) s"

text \<open>The request of a step: \<^verbatim>\<open>data['EventId']\<close> and the optional
  \<^verbatim>\<open>data['Data']\<close>.\<close>

record step_data =
  sd_EventId :: int
  sd_Data :: "pyval option"

text \<open>\<^verbatim>\<open>_step(self, data, is_error)\<close>; \<open>ret\<close> is what \<^verbatim>\<open>ch.get()\<close> hands back.\<close>

definition step_impl ::
  "server \<Rightarrow> step_data \<Rightarrow> bool \<Rightarrow> pyval option \<Rightarrow> result outcome \<times> server" where
  "step_impl s data is_error ret =
     (let eid = sd_EventId data in
      case map_of (events s) eid of
        None \<Rightarrow> (Raise (raise_PluginServerException ''event id %s not found'' [FInt eid]), s)
      | Some ch \<Rightarrow>
          (let dd = (case sd_Data data of None \<Rightarrow> PNone | Some d \<Rightarrow> d);
               item = (if is_error then PTuple [PNone, dd] else PTuple [dd, PNone]);
               s1 = s\<lparr>events :=
                        AList.map_entry eid (\<lambda>c. c\<lparr>ch_sent := ch_sent c @ [item]\<rparr>) (events s)\<rparr>
           in case ret of
                None \<Rightarrow> (Block (WaitRecv eid), s1)
              | Some ret \<Rightarrow>
                  (if ret = MSG_RET then
                     (case del_item eid (events s1) of
                        Inl ex \<Rightarrow> (Raise ex, s1)
                      | Inr d \<Rightarrow>
                          (Return (PDict [(''Data'', ret), (''EventId'', PInt eid)], PNone),
                           s1\<lparr>events := d\<rparr>))
                   else
                     (Return (PDict [(''Data'', ret), (''EventId'', PInt eid)], PNone), s1))))"

definition step :: "server \<Rightarrow> step_data \<Rightarrow> pyval option \<Rightarrow> result outcome \<times> server" where
  "step s data ret = step_impl s data False ret"

definition step_error :: "server \<Rightarrow> step_data \<Rightarrow> pyval option \<Rightarrow> result outcome \<times> server" where
  "step_error s data ret = step_impl s data True ret"

subsection \<open>The step methods set on the class\<close>

text \<open>
  The attributes of the class that take a step request, by name. The class body defines
  \<^verbatim>\<open>step\<close> and \<^verbatim>\<open>step_error\<close>; the loop at the end of the module sets
  \<^verbatim>\<open>'step_' + entity\<close> for every entity, and then \<^verbatim>\<open>step_multi_map\<close>, to
  \<^verbatim>\<open>PluginServer.step\<close>, the attribute read from the class at that moment.
\<close>

type_synonym step_method = "server \<Rightarrow> step_data \<Rightarrow> pyval option \<Rightarrow> result outcome \<times> server"

definition class_body :: "(string \<times> step_method) list" where
  "class_body = [(''step'', step), (''step_error'', step_error)]"

definition setattr_step :: "string \<Rightarrow> (string \<times> step_method) list \<Rightarrow> (string \<times> step_method) list" where
  "setattr_step name attrs =
     (case map_of attrs ''step'' of
        None \<Rightarrow> attrs
      | Some m \<Rightarrow> AList.update name m attrs)"

definition PluginServer_attrs :: "(string \<times> step_method) list" where
  "PluginServer_attrs =
     setattr_step ''step_multi_map''
       (fold (\<lambda>entity attrs. setattr_step (''step_'' @ entity) attrs) entities class_body)"

text \<open>Calling a step method by its name on the server, as the transport does.\<close>

definition call_method :: "string \<Rightarrow> step_method" where
  "call_method name s data ret =
     (case map_of PluginServer_attrs name of
        None \<Rightarrow> (Raise AttributeError, s)
      | Some m \<Rightarrow> m s data ret)"

subsection \<open>Sequences of calls\<close>

text \<open>
  One call of the server, with what the outside world answers during it, and the run of
  a sequence of calls, each on the state the one before left. The outcomes are listed in
  the order of the calls.
\<close>

datatype call =
    Get_status int
  | Get_plugin_info string
  | Start_instance cfg real real
  | Instance_status int
  | Close_instance int real
  | Handle_event event real "pyval option" real
  | Step_method string step_data "pyval option"
  | Sweep real real

fun exec :: "(string \<Rightarrow> exn + pyval) \<Rightarrow> call \<Rightarrow> server \<Rightarrow> result outcome \<times> server" where
  "exec loads (Get_status pid) s = get_status s pid"
| "exec loads (Get_plugin_info name) s = get_plugin_info s name"
| "exec loads (Start_instance c t_new t_ret) s = start_instance s loads c t_new t_ret"
| "exec loads (Instance_status iid) s = instance_status s iid"
| "exec loads (Close_instance iid now) s = close_instance s iid now"
| "exec loads (Handle_event ev t1 r t2) s = handle_event s ev t1 r t2"
| "exec loads (Step_method name data ret) s = call_method name s data ret"
| "exec loads (Sweep ttl now) s = clear_expired_plugins s ttl now"

fun run :: "(string \<Rightarrow> exn + pyval) \<Rightarrow> call list \<Rightarrow> server \<Rightarrow> result outcome list \<times> server" where
  "run loads [] s = ([], s)"
| "run loads (c # cs) s =
     (let (r, s1) = exec loads c s;
          (rs, s2) = run loads cs s1
      in (r # rs, s2))"

subsection \<open>Reading a result\<close>

text \<open>The value under a key of the dict that a call returned, if it returned one.\<close>

definition returned_field :: "string \<Rightarrow> result outcome \<Rightarrow> pyval option" where
  "returned_field key r = (case r of Return (PDict d, err) \<Rightarrow> map_of d key | _ \<Rightarrow> None)"

definition returned_id :: "string \<Rightarrow> result outcome \<Rightarrow> int option" where
  "returned_id key r = (case returned_field key r of Some (PInt i) \<Rightarrow> Some i | _ \<Rightarrow> None)"

text \<open>
  The event id that a call of \<^verbatim>\<open>handle_event\<close> makes known: the one it returns,
  or the one whose channel it is left waiting on.
\<close>

definition begun_id :: "result outcome \<Rightarrow> int option" where
  "begun_id r = (case r of Block (WaitRecv eid) \<Rightarrow> Some eid | _ \<Rightarrow> returned_id ''EventId'' r)"



text \<open>A resume of event \<open>eid\<close> at which the terminal sentinel is received.\<close>

definition is_terminal_for :: "int \<Rightarrow> call \<Rightarrow> bool" where
  "is_terminal_for eid c =
     (case c of
        Step_method name data ret \<Rightarrow> sd_EventId data = eid \<and> ret = Some MSG_RET
      | _ \<Rightarrow> False)"


text \<open>The keys of the Instance Table are distinct, as the keys of a dict are.\<close>

definition keys_distinct :: "server \<Rightarrow> bool" where
  "keys_distinct s = distinct (map fst (instances s))"

subsection \<open>A small server to run the calls on\<close>

text \<open>
  One loaded plugin, \<^verbatim>\<open>rate-limit\<close>, with an \<^verbatim>\<open>access\<close> handler; a decoder
  that knows the empty object and rejects everything else; the server in cooperative
  mode, before and after one \<^verbatim>\<open>start_instance\<close>.
\<close>

definition ex_module :: plugin_module where
  "ex_module =
     \<lparr>mod_mtime = 1, mod_load_time = 2, mod_phases = PList [PStr ''access''],
      mod_priority = PInt 0,
      mod_schema = PList [PDict [(''limit'', PDict [(''type'', PStr ''number'')])]],
      mod_cls = [''access''], last_start_instance_time = 0, last_close_instance_time = 0\<rparr>"

definition ex_loads :: "string \<Rightarrow> exn + pyval" where
  "ex_loads str = (if str = ''{}'' then Inr (PDict []) else Inl ValueError)"

definition ex_server :: server where
  "ex_server = init [(''rate-limit'', ex_module)] False"

definition ex_cfg :: cfg where
  "ex_cfg = \<lparr>cfg_Name = ''rate-limit'', cfg_Config = ''{}''\<rparr>"

definition ex_started :: server where
  "ex_started = snd (start_instance ex_server ex_loads ex_cfg 5 6)"

definition ex_instance :: plugin_instance where
  "ex_instance = \<lparr>ins_name = ''rate-limit'', ins_config = PDict [], ins_cls = [''access''],
                   ins_start_time = 5, ins_last_active = 5\<rparr>"

definition ex_event :: event where
  "ex_event = \<lparr>ev_InstanceId = 0, ev_EventName = ''access''\<rparr>"

text \<open>A call descriptor, as the facade of a handler sends it out.\<close>

definition ex_call :: pyval where
  "ex_call = PDict [(''Method'', PStr ''kong.log.info''), (''Args'', PList [PStr ''hi''])]"


text \<open>
  An event of instance 0: the state after its begin, two resumes that are not the last
  one with a sweep between them, and the state after the resume that receives the
  sentinel.
\<close>

definition ex_resumes :: "call list" where
  "ex_resumes =
     [Step_method ''step_service'' \<lparr>sd_EventId = 0, sd_Data = Some (PStr ''ok'')\<rparr> (Some ex_call),
      Sweep 60 100,
      Step_method ''step_error'' \<lparr>sd_EventId = 0, sd_Data = Some (PStr ''boom'')\<rparr> (Some ex_call)]"

definition ex_begun :: server where
  "ex_begun = snd (handle_event ex_started ex_event 10 (Some ex_call) 11)"

definition ex_retired :: server where
  "ex_retired =
     snd (call_method ''step'' (snd (run ex_loads ex_resumes ex_begun))
            \<lparr>sd_EventId = 0, sd_Data = None\<rparr> (Some MSG_RET))"

section \<open>Properties\<close>

subsection \<open>Formatting and the single calls\<close>


definition ex_waiting :: server where
  "ex_waiting = snd (handle_event ex_started ex_event 10 None 11)"

lemmas ex_defs = ex_module_def ex_loads_def ex_server_def ex_cfg_def init_def

lemmas lock_defs = locked_by_def acquire_def release_def sem_value_def sem_set_def

lemma format_not_found:
  "py_format ''instance #%s not found'' [FInt iid] =
     Inr (''instance #'' @ str_int iid @ '' not found'')"
  by simp

lemma format_not_init: "raise_PluginServerException '' not initizlied'' [FStr name] = TypeError"
  by (simp add: raise_PluginServerException_def)

lemma ex_started_eval:
  "ex_started =
     \<lparr>plugins = [(''rate-limit'', ex_module\<lparr>last_start_instance_time := 5\<rparr>)],
      instances = [(0, \<lparr>ins_name = ''rate-limit'', ins_config = PDict [], ins_cls = [''access''],
                       ins_start_time = 5, ins_last_active = 5\<rparr>)],
      instance_id = 1, i_lock = 1, events = [], event_id = 0, e_lock = 1,
      multiprocess = False, close_cb_calls = []\<rparr>"
  by (simp add: ex_started_def ex_defs start_instance_def lock_defs start_instance_body_def
      module_new_def Let_def)

lemma close_present:
  "0 < i_lock s \<Longrightarrow> map_of (instances s) iid = Some ins \<Longrightarrow>
   snd (close_instance s iid now) =
     (close_cb iid ins now s)\<lparr>instances := AList.delete iid (instances s)\<rparr> \<and>
   fst (close_instance s iid now) \<noteq> Block w"
  by (simp add: close_instance_def lock_defs close_instance_body_def close_cb_def del_item_def
      Let_def split: sum.splits)

lemma close_absent:
  "0 < i_lock s \<Longrightarrow> map_of (instances s) iid = None \<Longrightarrow>
   close_instance s iid now =
     (Return (PNone, PStr (''instance #'' @ str_int iid @ '' not found'')), s)"
  by (simp add: close_instance_def lock_defs close_instance_body_def
      del: py_format.simps add: format_not_found)

lemma close_blocked:
  "i_lock s = 0 \<Longrightarrow> close_instance s iid now = (Block (WaitLock I_lock), s)"
  by (simp add: close_instance_def locked_by_def acquire_def sem_value_def)

lemma attrs_eval:
  "PluginServer_attrs =
     [(''step'', step), (''step_error'', step_error), (''step_service'', step),
      (''step_consumer'', step), (''step_route'', step), (''step_plugin'', step),
      (''step_credential'', step), (''step_memory_stats'', step), (''step_multi_map'', step)]"
  by (simp add: PluginServer_attrs_def entities_def class_body_def setattr_step_def)

lemma map_of_del_item:
  "del_item k d = Inr d' \<Longrightarrow> map_of d' k' = (if k' = k then None else map_of d k')"
  by (auto simp add: del_item_def AList.delete_conv split: if_splits)

lemma map_of_touch:
  "map_of (AList.map_entry k f d) k' =
     (if k' = k then map_option f (map_of d k) else map_of d k')"
  by (simp add: AList.map_of_map_entry split: option.splits)

lemma locked_by_frame:
  assumes "\<And>s n. f (sem_set l n s) = f s" and "\<And>s1. f (snd (fn s1)) = f s1"
  shows "f (snd (locked_by l fn s)) = f s"
proof (cases "sem_value l s = 0")
  case True
  then show ?thesis by (simp add: locked_by_def acquire_def)
next
  case False
  let ?s1 = "sem_set l (sem_value l s - 1) s"
  obtain r s2 where b: "fn ?s1 = (r, s2)" by (cases "fn ?s1")
  from assms(2) [of ?s1] b assms(1) have "f s2 = f s" by simp
  with False b assms(1) show ?thesis
    by (cases r) (simp_all add: locked_by_def acquire_def release_def)
qed

lemma locked_by_block:
  assumes "fst (locked_by l fn s) = Block (WaitRecv e)"
  shows "\<exists>s1. fst (fn s1) = Block (WaitRecv e)"
proof (cases "sem_value l s = 0")
  case True
  with assms show ?thesis by (simp add: locked_by_def acquire_def)
next
  case False
  let ?s1 = "sem_set l (sem_value l s - 1) s"
  obtain r s2 where b: "fn ?s1 = (r, s2)" by (cases "fn ?s1")
  with False assms have "r = Block (WaitRecv e)"
    by (cases r) (simp_all add: locked_by_def acquire_def)
  with b show ?thesis by (metis fst_conv)
qed

lemma get_plugin_info_unknown:
  "map_of (plugins s) name = None \<Longrightarrow> get_plugin_info s name = (Raise TypeError, s)"
  by (simp add: get_plugin_info_def format_not_init)


lemma start_unknown: "0 < i_lock s \<Longrightarrow> map_of (plugins s) (cfg_Name c) = None \<Longrightarrow>
   start_instance s loads c t_new t_ret = (Raise TypeError, s)"
  by (simp add: start_instance_def lock_defs start_instance_body_def format_not_init)

lemma start_malformed: "0 < i_lock s \<Longrightarrow> map_of (plugins s) (cfg_Name c) = Some plugin \<Longrightarrow>
   loads (cfg_Config c) = Inl ex \<Longrightarrow>
   start_instance s loads c t_new t_ret = (Raise ex, s)"
  by (simp add: start_instance_def lock_defs start_instance_body_def)


lemma start_body_no_block: "fst (start_instance_body loads c t_new t_ret s) \<noteq> Block w"
  by (simp add: start_instance_body_def Let_def module_new_def split: option.splits sum.splits)

lemma start_body_events:
  "events (snd (start_instance_body loads c t_new t_ret s)) = events s"
  "event_id (snd (start_instance_body loads c t_new t_ret s)) = event_id s"
  by (simp_all add: start_instance_body_def Let_def module_new_def split: option.splits sum.splits)

lemma close_body_no_block: "fst (close_instance_body iid now s) \<noteq> Block w"
  by (simp add: close_instance_body_def Let_def split: option.splits sum.splits)

lemma close_body_frame:
  "events (snd (close_instance_body iid now s)) = events s"
  "event_id (snd (close_instance_body iid now s)) = event_id s"
  "instance_id (snd (close_instance_body iid now s)) = instance_id s"
  by (simp_all add: close_instance_body_def Let_def close_cb_def
      split: option.splits sum.splits)

lemma instance_status_frame: "snd (instance_status s iid) = s"
  by (simp add: instance_status_def split: option.splits sum.splits)

lemma instance_status_no_block: "fst (instance_status s iid) \<noteq> Block w"
  by (simp add: instance_status_def split: option.splits sum.splits)

lemma get_status_instances_no_block: "get_status_instances s iids \<noteq> Block w"
proof (induction iids)
  case Nil
  show ?case by simp
next
  case (Cons iid iids)
  then show ?case
    using instance_status_no_block [of s iid]
    by (auto split: outcome.splits pyval.splits prod.splits)
qed

lemma get_status_loop_no_block: "get_status_loop s names acc \<noteq> Block w"
  by (induction names arbitrary: acc)
     (auto simp add: get_status_instances_no_block split: outcome.splits option.splits)

lemma get_status_body_frame: "snd (get_status_body pid s) = s"
  by (simp add: get_status_body_def split: outcome.splits)

lemma get_status_body_no_block: "fst (get_status_body pid s) \<noteq> Block w"
  by (simp add: get_status_body_def get_status_loop_no_block split: outcome.splits)

subsection \<open>One round of the sweeper\<close>

lemma loop_frame:
  "clear_expired_loop keys ttl now s = (r, s') \<Longrightarrow>
     plugins s' = plugins s \<and> instance_id s' = instance_id s \<and> i_lock s' = i_lock s \<and>
     events s' = events s \<and> event_id s' = event_id s \<and> e_lock s' = e_lock s \<and>
     multiprocess s' = multiprocess s \<and> close_cb_calls s' = close_cb_calls s \<and>
     (\<forall>w. r \<noteq> Block w)"
proof (induction keys arbitrary: s)
  case Nil
  then show ?case by auto
next
  case (Cons iid keys)
  show ?case
  proof (cases "map_of (instances s) iid")
    case None
    with Cons.prems show ?thesis by auto
  next
    case (Some ins)
    show ?thesis
    proof (cases "is_expired ins ttl now")
      case True
      with Some have d: "del_item iid (instances s) = Inr (AList.delete iid (instances s))"
        by (simp add: del_item_def)
      from Cons.prems Some True d
      have "clear_expired_loop keys ttl now (s\<lparr>instances := AList.delete iid (instances s)\<rparr>) = (r, s')"
        by simp
      from Cons.IH [OF this] show ?thesis by simp
    next
      case False
      with Cons.prems Some have "clear_expired_loop keys ttl now s = (r, s')" by simp
      from Cons.IH [OF this] show ?thesis .
    qed
  qed
qed


lemma sweep_blocked:
  "i_lock s = 0 \<Longrightarrow> clear_expired_plugins s ttl now = (Block (WaitLock I_lock), s)"
  by (simp add: clear_expired_plugins_def acquire_def sem_value_def)

lemma sweep_frame:
  assumes "clear_expired_plugins s ttl now = (r, s')"
  shows "plugins s' = plugins s \<and> instance_id s' = instance_id s \<and>
     events s' = events s \<and> event_id s' = event_id s \<and> e_lock s' = e_lock s \<and>
     multiprocess s' = multiprocess s \<and> close_cb_calls s' = close_cb_calls s \<and>
     (\<forall>eid. r \<noteq> Block (WaitRecv eid))"
proof (cases "i_lock s = 0")
  case True
  with assms show ?thesis by (auto simp add: sweep_blocked)
next
  case False
  obtain r1 s1 where l: "clear_expired_loop (map fst (instances s)) ttl now (s\<lparr>i_lock := i_lock s - 1\<rparr>) = (r1, s1)"
    by (cases "clear_expired_loop (map fst (instances s)) ttl now (s\<lparr>i_lock := i_lock s - 1\<rparr>)")
  note f = loop_frame [OF l]
  from assms False l have "(s' = s1 \<or> s' = s1\<lparr>i_lock := i_lock s1 + 1\<rparr>) \<and> r = r1"
    by (cases r1) (auto simp add: clear_expired_plugins_def lock_defs)
  with f show ?thesis by auto
qed


subsection \<open>The ways an event call ends\<close>

lemma handle_blocked:
  "e_lock s = 0 \<Longrightarrow> handle_event s ev t1 r t2 = (Block (WaitLock E_lock), s)"
  by (simp add: handle_event_def locked_by_def acquire_def sem_value_def)

lemma handle_unknown:
  "0 < e_lock s \<Longrightarrow> map_of (instances s) (ev_InstanceId ev) = None \<Longrightarrow>
   handle_event s ev t1 r t2 =
     (Raise (raise_PluginServerException ''instance id %s not found'' [FInt (ev_InstanceId ev)]), s)"
  by (simp add: handle_event_def lock_defs handle_event_body_def)

lemma handle_no_handler:
  "0 < e_lock s \<Longrightarrow> map_of (instances s) (ev_InstanceId ev) = Some ins \<Longrightarrow>
   ev_EventName ev \<notin> set (ins_cls ins) \<Longrightarrow>
   handle_event s ev t1 r t2 =
     (Raise AttributeError,
      s\<lparr>instances := AList.map_entry (ev_InstanceId ev) (reset_expire_ts t1) (instances s),
        event_id := event_id s + 1,
        events := AList.update (event_id s)
          \<lparr>ch_pipe = multiprocess s, ch_handler = ev_EventName ev, ch_sent = []\<rparr> (events s)\<rparr>)"
  by (simp add: handle_event_def lock_defs handle_event_body_def Let_def getattr_cls_def)

lemma handle_waiting:
  "0 < e_lock s \<Longrightarrow> map_of (instances s) (ev_InstanceId ev) = Some ins \<Longrightarrow>
   ev_EventName ev \<in> set (ins_cls ins) \<Longrightarrow>
   handle_event s ev t1 None t2 =
     (Block (WaitRecv (event_id s)),
      s\<lparr>instances := AList.map_entry (ev_InstanceId ev) (reset_expire_ts t1) (instances s),
        event_id := event_id s + 1,
        events := AList.update (event_id s)
          \<lparr>ch_pipe = multiprocess s, ch_handler = ev_EventName ev, ch_sent = []\<rparr> (events s),
        e_lock := e_lock s - 1\<rparr>)"
  by (simp add: handle_event_def lock_defs handle_event_body_def Let_def getattr_cls_def)

lemma handle_returns:
  "0 < e_lock s \<Longrightarrow> map_of (instances s) (ev_InstanceId ev) = Some ins \<Longrightarrow>
   ev_EventName ev \<in> set (ins_cls ins) \<Longrightarrow>
   handle_event s ev t1 (Some m) t2 =
     (Return (PDict [(''Data'', m), (''EventId'', PInt (event_id s))], PNone),
      s\<lparr>instances := AList.map_entry (ev_InstanceId ev) (reset_expire_ts t2)
            (AList.map_entry (ev_InstanceId ev) (reset_expire_ts t1) (instances s)),
        event_id := event_id s + 1,
        events := AList.update (event_id s)
          \<lparr>ch_pipe = multiprocess s, ch_handler = ev_EventName ev, ch_sent = []\<rparr> (events s)\<rparr>)"
  by (simp add: handle_event_def lock_defs handle_event_body_def Let_def getattr_cls_def)

lemma handle_body_frame:
  "instance_id (snd (handle_event_body ev t1 r t2 s)) = instance_id s"
  "i_lock (snd (handle_event_body ev t1 r t2 s)) = i_lock s"
  "close_cb_calls (snd (handle_event_body ev t1 r t2 s)) = close_cb_calls s"
  by (simp_all add: handle_event_body_def Let_def split: option.splits sum.splits)

lemma handle_event_cases:
  obtains
    (locked) "e_lock s = 0" "handle_event s ev t1 r t2 = (Block (WaitLock E_lock), s)"
  | (unknown) "0 < e_lock s" "map_of (instances s) (ev_InstanceId ev) = None"
      "handle_event s ev t1 r t2 =
        (Raise (raise_PluginServerException ''instance id %s not found'' [FInt (ev_InstanceId ev)]), s)"
  | (no_handler) ins where "0 < e_lock s" "map_of (instances s) (ev_InstanceId ev) = Some ins"
      "ev_EventName ev \<notin> set (ins_cls ins)"
      "handle_event s ev t1 r t2 =
     (Raise AttributeError,
      s\<lparr>instances := AList.map_entry (ev_InstanceId ev) (reset_expire_ts t1) (instances s),
        event_id := event_id s + 1,
        events := AList.update (event_id s)
          \<lparr>ch_pipe = multiprocess s, ch_handler = ev_EventName ev, ch_sent = []\<rparr> (events s)\<rparr>)"
  | (waiting) ins where "0 < e_lock s" "map_of (instances s) (ev_InstanceId ev) = Some ins"
      "ev_EventName ev \<in> set (ins_cls ins)" "r = None"
      "handle_event s ev t1 r t2 =
     (Block (WaitRecv (event_id s)),
      s\<lparr>instances := AList.map_entry (ev_InstanceId ev) (reset_expire_ts t1) (instances s),
        event_id := event_id s + 1,
        events := AList.update (event_id s)
          \<lparr>ch_pipe = multiprocess s, ch_handler = ev_EventName ev, ch_sent = []\<rparr> (events s),
        e_lock := e_lock s - 1\<rparr>)"
  | (returns) ins m where "0 < e_lock s" "map_of (instances s) (ev_InstanceId ev) = Some ins"
      "ev_EventName ev \<in> set (ins_cls ins)" "r = Some m"
      "handle_event s ev t1 r t2 =
     (Return (PDict [(''Data'', m), (''EventId'', PInt (event_id s))], PNone),
      s\<lparr>instances := AList.map_entry (ev_InstanceId ev) (reset_expire_ts t2)
            (AList.map_entry (ev_InstanceId ev) (reset_expire_ts t1) (instances s)),
        event_id := event_id s + 1,
        events := AList.update (event_id s)
          \<lparr>ch_pipe = multiprocess s, ch_handler = ev_EventName ev, ch_sent = []\<rparr> (events s)\<rparr>)"
proof (cases "e_lock s = 0")
  case True
  then show ?thesis using locked handle_blocked by blast
next
  case free: False
  show ?thesis
  proof (cases "map_of (instances s) (ev_InstanceId ev)")
    case None
    with free show ?thesis using unknown handle_unknown by auto
  next
    case (Some ins)
    show ?thesis
    proof (cases "ev_EventName ev \<in> set (ins_cls ins)")
      case False
      with free Some show ?thesis using no_handler handle_no_handler by auto
    next
      case True
      show ?thesis
      proof (cases r)
        case None
        with free Some True show ?thesis using waiting handle_waiting by auto
      next
        case (Some m)
        with free \<open>map_of (instances s) (ev_InstanceId ev) = Some ins\<close> True show ?thesis
          using returns handle_returns by auto
      qed
    qed
  qed
qed

lemma step_unknown:
  "map_of (events s) (sd_EventId data) = None \<Longrightarrow>
   step_impl s data is_error ret =
     (Raise (raise_PluginServerException ''event id %s not found'' [FInt (sd_EventId data)]), s)"
  by (simp add: step_impl_def)

lemma step_events:
  assumes "map_of (events s) (sd_EventId data) = Some ch"
  shows "map_of (events (snd (step_impl s data is_error ret))) eid =
     (if eid = sd_EventId data then
        (if ret = Some MSG_RET then None
         else Some (ch\<lparr>ch_sent := ch_sent ch @
                [if is_error then PTuple [PNone, case sd_Data data of None \<Rightarrow> PNone | Some d \<Rightarrow> d]
                 else PTuple [case sd_Data data of None \<Rightarrow> PNone | Some d \<Rightarrow> d, PNone]]\<rparr>))
      else map_of (events s) eid)"
  using assms
  by (cases ret)
     (auto simp add: step_impl_def Let_def del_item_def map_of_touch AList.delete_conv)

lemma step_outcome:
  assumes "map_of (events s) (sd_EventId data) = Some ch"
  shows "fst (step_impl s data is_error ret) =
     (case ret of
        None \<Rightarrow> Block (WaitRecv (sd_EventId data))
      | Some m \<Rightarrow> Return (PDict [(''Data'', m), (''EventId'', PInt (sd_EventId data))], PNone))"
  using assms
  by (cases ret) (auto simp add: step_impl_def Let_def del_item_def map_of_touch)

lemma step_impl_frame:
  "instances (snd (step_impl s data is_error ret)) = instances s"
  "instance_id (snd (step_impl s data is_error ret)) = instance_id s"
  "event_id (snd (step_impl s data is_error ret)) = event_id s"
  "i_lock (snd (step_impl s data is_error ret)) = i_lock s"
  "e_lock (snd (step_impl s data is_error ret)) = e_lock s"
  "plugins (snd (step_impl s data is_error ret)) = plugins s"
  "close_cb_calls (snd (step_impl s data is_error ret)) = close_cb_calls s"
  by (simp_all add: step_impl_def Let_def split: option.splits sum.splits)

lemma call_method_cases:
  "call_method name s data ret = (Raise AttributeError, s) \<or>
   call_method name s data ret = step_impl s data False ret \<or>
   call_method name s data ret = step_impl s data True ret"
  by (simp add: call_method_def attrs_eval step_def step_error_def)

lemma call_method_frame:
  "instances (snd (call_method name s data ret)) = instances s"
  "instance_id (snd (call_method name s data ret)) = instance_id s"
  "event_id (snd (call_method name s data ret)) = event_id s"
  "i_lock (snd (call_method name s data ret)) = i_lock s"
  "e_lock (snd (call_method name s data ret)) = e_lock s"
  "plugins (snd (call_method name s data ret)) = plugins s"
  "close_cb_calls (snd (call_method name s data ret)) = close_cb_calls s"
  using call_method_cases [of name s data ret] by (auto simp add: step_impl_frame)

subsection \<open>What a call changes, and sequences of calls\<close>

lemma get_status_frame:
  "events (snd (get_status s pid)) = events s"
  "event_id (snd (get_status s pid)) = event_id s"
  "instance_id (snd (get_status s pid)) = instance_id s"
  unfolding get_status_def
  by (rule locked_by_frame; simp add: sem_set_def get_status_body_frame split: lock_name.splits)+

lemma close_instance_frame:
  "events (snd (close_instance s iid now)) = events s"
  "event_id (snd (close_instance s iid now)) = event_id s"
  "instance_id (snd (close_instance s iid now)) = instance_id s"
  unfolding close_instance_def
  by (rule locked_by_frame; simp add: sem_set_def close_body_frame split: lock_name.splits)+

lemma start_instance_frame:
  "events (snd (start_instance s loads cf t_new t_ret)) = events s"
  "event_id (snd (start_instance s loads cf t_new t_ret)) = event_id s"
  unfolding start_instance_def
  by (rule locked_by_frame; simp add: sem_set_def start_body_events split: lock_name.splits)+


lemma handle_event_i_lock: "i_lock (snd (handle_event s ev t1 r t2)) = i_lock s"
  unfolding handle_event_def
  by (rule locked_by_frame) (simp_all add: sem_set_def handle_body_frame)

lemma get_plugin_info_frame: "snd (get_plugin_info s name) = s"
  by (simp add: get_plugin_info_def split: option.splits)

lemma sweep_fields:
  "events (snd (clear_expired_plugins s ttl now)) = events s"
  "event_id (snd (clear_expired_plugins s ttl now)) = event_id s"
  "instance_id (snd (clear_expired_plugins s ttl now)) = instance_id s"
  using sweep_frame [of s ttl now "fst (clear_expired_plugins s ttl now)"
        "snd (clear_expired_plugins s ttl now)"]
  by simp_all


lemma handle_event_id:
  assumes "handle_event s ev t1 m t2 = (r, s')"
  shows "event_id s \<le> event_id s' \<and>
         (\<forall>i. begun_id r = Some i \<longrightarrow> i = event_id s \<and> event_id s' = event_id s + 1)"
  using assms
  by (rule_tac s = s and ev = ev and ?t1.0 = t1 and r = m and ?t2.0 = t2 in handle_event_cases)
     (auto simp add: begun_id_def returned_id_def returned_field_def raise_PluginServerException_def
        split: sum.splits)

lemma exec_recv_i_lock:
  assumes "exec loads c s = (Block (WaitRecv eid), s')"
  shows "i_lock s' = i_lock s"
proof (cases c)
  case (Get_status pid)
  with assms have "fst (locked_by I_lock (get_status_body pid) s) = Block (WaitRecv eid)"
    by (simp add: get_status_def)
  from locked_by_block [OF this] show ?thesis by (simp add: get_status_body_no_block)
next
  case (Get_plugin_info name)
  with assms show ?thesis by (simp add: get_plugin_info_def split: option.splits)
next
  case (Start_instance cf t_new t_ret)
  with assms have "fst (locked_by I_lock (start_instance_body loads cf t_new t_ret) s) = Block (WaitRecv eid)"
    by (simp add: start_instance_def)
  from locked_by_block [OF this] show ?thesis by (simp add: start_body_no_block)
next
  case (Instance_status iid)
  with assms instance_status_no_block [of s iid "WaitRecv eid"] show ?thesis by simp
next
  case (Close_instance iid now)
  with assms have "fst (locked_by I_lock (close_instance_body iid now) s) = Block (WaitRecv eid)"
    by (simp add: close_instance_def)
  from locked_by_block [OF this] show ?thesis by (simp add: close_body_no_block)
next
  case (Handle_event ev t1 r t2)
  with assms handle_event_i_lock [of s ev t1 r t2] show ?thesis by simp
next
  case (Step_method name data ret)
  with assms call_method_frame(4) [of name s data ret] show ?thesis by simp
next
  case (Sweep ttl now)
  with assms sweep_frame [of s ttl now "Block (WaitRecv eid)" s'] show ?thesis by simp
qed


lemma exec_event_id:
  assumes "exec loads c s = (r, s')"
  shows "event_id s \<le> event_id s'"
proof (cases c)
  case (Start_instance cf t_new t_ret)
  with assms start_instance_frame(2) [of s loads cf t_new t_ret] show ?thesis by simp
next
  case (Get_status pid)
  with assms get_status_frame(2) [of s pid] show ?thesis by simp
next
  case (Get_plugin_info name)
  with assms get_plugin_info_frame [of s name] show ?thesis by simp
next
  case (Instance_status iid)
  with assms instance_status_frame [of s iid] show ?thesis by simp
next
  case (Close_instance iid now)
  with assms close_instance_frame(2) [of s iid now] show ?thesis by simp
next
  case (Handle_event ev t1 m t2)
  with assms handle_event_id [of s ev t1 m t2 r s'] show ?thesis by simp
next
  case (Step_method name data ret)
  with assms call_method_frame(3) [of name s data ret] show ?thesis by simp
next
  case (Sweep ttl now)
  with assms sweep_fields(2) [of s ttl now] show ?thesis by simp
qed



lemma call_method_events_keep:
  assumes "map_of (events s) eid \<noteq> None"
    and "\<not> (sd_EventId data = eid \<and> ret = Some MSG_RET)"
  shows "map_of (events (snd (call_method name s data ret))) eid \<noteq> None"
proof -
  have "map_of (events (snd (step_impl s data e ret))) eid \<noteq> None" for e
  proof (cases "map_of (events s) (sd_EventId data)")
    case None
    with assms(1) show ?thesis by (simp add: step_unknown)
  next
    case (Some ch)
    from step_events [OF Some, of e ret eid] assms show ?thesis by auto
  qed
  with call_method_cases [of name s data ret] assms(1) show ?thesis by auto
qed

lemma call_method_events_out:
  assumes "map_of (events s) eid = None"
  shows "map_of (events (snd (call_method name s data ret))) eid = None"
proof -
  have "map_of (events (snd (step_impl s data e ret))) eid = None" for e
  proof (cases "map_of (events s) (sd_EventId data)")
    case None
    with assms(1) show ?thesis by (simp add: step_unknown)
  next
    case (Some ch)
    from step_events [OF Some, of e ret eid] assms Some show ?thesis by auto
  qed
  with call_method_cases [of name s data ret] assms(1) show ?thesis by auto
qed

lemma handle_event_events:
  "map_of (events (snd (handle_event s ev t1 m t2))) eid = map_of (events s) eid \<or>
   (eid = event_id s \<and> map_of (events (snd (handle_event s ev t1 m t2))) eid \<noteq> None)"
  by (rule_tac s = s and ev = ev and ?t1.0 = t1 and r = m and ?t2.0 = t2 in handle_event_cases)
     (auto simp add: update_conv')

lemma exec_events_keep:
  assumes "exec loads c s = (r, s')" and "map_of (events s) eid \<noteq> None"
    and "\<not> is_terminal_for eid c"
  shows "map_of (events s') eid \<noteq> None"
proof (cases c)
  case (Start_instance cf t_new t_ret)
  with assms start_instance_frame(1) [of s loads cf t_new t_ret] show ?thesis by simp
next
  case (Get_status pid)
  with assms get_status_frame(1) [of s pid] show ?thesis by simp
next
  case (Get_plugin_info name)
  with assms get_plugin_info_frame [of s name] show ?thesis by simp
next
  case (Instance_status iid)
  with assms instance_status_frame [of s iid] show ?thesis by simp
next
  case (Close_instance iid now)
  with assms close_instance_frame(1) [of s iid now] show ?thesis by simp
next
  case (Handle_event ev t1 m t2)
  with assms handle_event_events [of s ev t1 m t2 eid] show ?thesis by auto
next
  case (Step_method name data ret)
  with assms call_method_events_keep [of s eid data ret name] show ?thesis
    by (simp add: is_terminal_for_def)
next
  case (Sweep ttl now)
  with assms sweep_fields(1) [of s ttl now] show ?thesis by simp
qed

lemma exec_events_out:
  assumes "exec loads c s = (r, s')" and "map_of (events s) eid = None" and "eid < event_id s"
  shows "map_of (events s') eid = None \<and> eid < event_id s'"
proof -
  from exec_event_id [OF assms(1)] assms(3) have lt: "eid < event_id s'" by simp
  have "map_of (events s') eid = None"
  proof (cases c)
    case (Start_instance cf t_new t_ret)
    with assms start_instance_frame(1) [of s loads cf t_new t_ret] show ?thesis by simp
  next
    case (Get_status pid)
    with assms get_status_frame(1) [of s pid] show ?thesis by simp
  next
    case (Get_plugin_info name)
    with assms get_plugin_info_frame [of s name] show ?thesis by simp
  next
    case (Instance_status iid)
    with assms instance_status_frame [of s iid] show ?thesis by simp
  next
    case (Close_instance iid now)
    with assms close_instance_frame(1) [of s iid now] show ?thesis by simp
  next
    case (Handle_event ev t1 m t2)
    with assms handle_event_events [of s ev t1 m t2 eid] show ?thesis by auto
  next
    case (Step_method name data ret)
    with assms call_method_events_out [of s eid name data ret] show ?thesis by simp
  next
    case (Sweep ttl now)
    with assms sweep_fields(1) [of s ttl now] show ?thesis by simp
  qed
  with lt show ?thesis by simp
qed

lemma run_events_keep:
  "map_of (events s) eid \<noteq> None \<Longrightarrow> \<forall>c \<in> set cs. \<not> is_terminal_for eid c \<Longrightarrow>
   map_of (events (snd (run loads cs s))) eid \<noteq> None"
proof (induction cs arbitrary: s)
  case Nil
  then show ?case by simp
next
  case (Cons c cs)
  obtain r s1 where e: "exec loads c s = (r, s1)" by (cases "exec loads c s")
  from exec_events_keep [OF e Cons.prems(1)] Cons.prems(2)
  have "map_of (events s1) eid \<noteq> None" by simp
  from Cons.IH [OF this] Cons.prems(2) e show ?case by (simp add: split_beta)
qed

lemma run_events_out:
  "map_of (events s) eid = None \<Longrightarrow> eid < event_id s \<Longrightarrow>
   map_of (events (snd (run loads cs s))) eid = None"
proof (induction cs arbitrary: s)
  case Nil
  then show ?case by simp
next
  case (Cons c cs)
  obtain r s1 where e: "exec loads c s = (r, s1)" by (cases "exec loads c s")
  from exec_events_out [OF e Cons.prems]
  have "map_of (events s1) eid = None" "eid < event_id s1" by simp_all
  from Cons.IH [OF this] e show ?case by (simp add: split_beta)
qed

lemma run_event_id: "event_id s \<le> event_id (snd (run loads cs s))"
proof (induction cs arbitrary: s)
  case Nil
  show ?case by simp
next
  case (Cons c cs)
  obtain r s1 where e: "exec loads c s = (r, s1)" by (cases "exec loads c s")
  from exec_event_id [OF e] Cons.IH [of s1] e show ?case by (simp add: split_beta)
qed


subsection \<open>The keys of the Instance Table stay distinct\<close>

lemma locked_by_invariant:
  assumes "\<And>s n. P (sem_set l n s) = P s" and "\<And>s1. P s1 \<Longrightarrow> P (snd (fn s1))" and "P s"
  shows "P (snd (locked_by l fn s))"
proof (cases "sem_value l s = 0")
  case True
  with assms(3) show ?thesis by (simp add: locked_by_def acquire_def)
next
  case False
  let ?s1 = "sem_set l (sem_value l s - 1) s"
  obtain r s2 where b: "fn ?s1 = (r, s2)" by (cases "fn ?s1")
  from assms have "P (snd (fn ?s1))" by simp
  with b have "P s2" by simp
  with False b assms(1) show ?thesis
    by (cases r) (simp_all add: locked_by_def acquire_def release_def)
qed

lemma loop_distinct:
  "keys_distinct s \<Longrightarrow> keys_distinct (snd (clear_expired_loop keys ttl now s))"
proof (induction keys arbitrary: s)
  case Nil
  then show ?case by simp
next
  case (Cons iid keys)
  have "keys_distinct (s\<lparr>instances := AList.delete iid (instances s)\<rparr>)"
    using Cons.prems by (simp add: keys_distinct_def distinct_delete)
  from Cons.IH [OF this] Cons.IH [OF Cons.prems] Cons.prems show ?case
    by (auto simp add: del_item_def split: option.splits)
qed

lemma exec_distinct:
  assumes "keys_distinct s"
  shows "keys_distinct (snd (exec loads c s))"
proof (cases c)
  case (Get_status pid)
  have "keys_distinct (snd (locked_by I_lock (get_status_body pid) s))"
    by (rule locked_by_invariant)
       (simp_all add: keys_distinct_def sem_set_def get_status_body_frame assms [unfolded keys_distinct_def]
          split: lock_name.splits)
  with Get_status show ?thesis by (simp add: get_status_def)
next
  case (Get_plugin_info name)
  with assms show ?thesis by (simp add: get_plugin_info_frame)
next
  case (Start_instance cf t_new t_ret)
  have "keys_distinct (snd (locked_by I_lock (start_instance_body loads cf t_new t_ret) s))"
  proof (rule locked_by_invariant)
    show "keys_distinct s" by (rule assms)
    show "keys_distinct (sem_set I_lock n s) = keys_distinct s" for s n
      by (simp add: keys_distinct_def sem_set_def)
    show "keys_distinct (snd (start_instance_body loads cf t_new t_ret s1))" if "keys_distinct s1" for s1
      using that
      by (simp add: start_instance_body_def Let_def module_new_def keys_distinct_def distinct_update
          split: option.splits sum.splits)
  qed
  with Start_instance show ?thesis by (simp add: start_instance_def)
next
  case (Instance_status iid)
  with assms show ?thesis by (simp add: instance_status_frame)
next
  case (Close_instance iid now)
  have "keys_distinct (snd (locked_by I_lock (close_instance_body iid now) s))"
  proof (rule locked_by_invariant)
    show "keys_distinct s" by (rule assms)
    show "keys_distinct (sem_set I_lock n s) = keys_distinct s" for s n
      by (simp add: keys_distinct_def sem_set_def)
    show "keys_distinct (snd (close_instance_body iid now s1))" if "keys_distinct s1" for s1
      using that
      by (simp add: close_instance_body_def Let_def close_cb_def del_item_def keys_distinct_def
          distinct_delete split: option.splits sum.splits)
  qed
  with Close_instance show ?thesis by (simp add: close_instance_def)
next
  case (Handle_event ev t1 m t2)
  have "keys_distinct (snd (locked_by E_lock (handle_event_body ev t1 m t2) s))"
  proof (rule locked_by_invariant)
    show "keys_distinct s" by (rule assms)
    show "keys_distinct (sem_set E_lock n s) = keys_distinct s" for s n
      by (simp add: keys_distinct_def sem_set_def)
    show "keys_distinct (snd (handle_event_body ev t1 m t2 s1))" if "keys_distinct s1" for s1
      using that
      by (simp add: handle_event_body_def Let_def keys_distinct_def distinct_map_entry
          split: option.splits sum.splits)
  qed
  with Handle_event show ?thesis by (simp add: handle_event_def)
next
  case (Step_method name data ret)
  with assms show ?thesis by (simp add: keys_distinct_def call_method_frame)
next
  case (Sweep ttl now)
  show ?thesis
  proof (cases "i_lock s = 0")
    case True
    with Sweep assms show ?thesis by (simp add: sweep_blocked)
  next
    case False
    let ?s1 = "s\<lparr>i_lock := i_lock s - 1\<rparr>"
    have "keys_distinct ?s1" using assms by (simp add: keys_distinct_def)
    from loop_distinct [OF this, of "map fst (instances s)" ttl now]
    have "keys_distinct (snd (clear_expired_loop (map fst (instances s)) ttl now ?s1))" .
    with Sweep False show ?thesis
      by (auto simp add: clear_expired_plugins_def lock_defs keys_distinct_def
          split: prod.splits outcome.splits)
  qed
qed

lemma run_distinct: "keys_distinct s \<Longrightarrow> keys_distinct (snd (run loads cs s))"
proof (induction cs arbitrary: s)
  case Nil
  then show ?case by simp
next
  case (Cons c cs)
  from Cons.IH [OF exec_distinct [OF Cons.prems, of loads c]] show ?case
    by (simp add: split_beta)
qed

lemma reachable_distinct: "distinct (map fst (instances (snd (run loads cs (init loaded mp)))))"
  using run_distinct [of "init loaded mp" loads cs] by (simp add: keys_distinct_def init_def)

subsection \<open>Resumes\<close>


lemma call_method_no_lock_wait: "fst (call_method name s data ret) \<noteq> Block (WaitLock l)"
proof -
  have "fst (step_impl s data e ret) \<noteq> Block (WaitLock l)" for e
    by (simp add: step_impl_def Let_def del_item_def split: option.splits sum.splits)
  with call_method_cases [of name s data ret] show ?thesis by auto
qed

subsection \<open>Closing an instance\<close>

text \<open>
  C1. The claim: for an instance id that is in the Instance Table, \<^verbatim>\<open>close_instance\<close>
  calls the close hook, removes the entry, and returns the descriptor Name, Id, Config
  built from the instance's fields. On the started server, where \<^verbatim>\<open>instance_status\<close>
  returns the fields of instance 0 read as attributes, \<^verbatim>\<open>close_instance\<close> calls the
  hook and removes the entry, and then raises TypeError at \<^verbatim>\<open>ins['name']\<close>: no
  descriptor is returned.
\<close>

theorem close_instance_raises_on_present:
  "map_of (instances ex_started) 0 \<noteq> None \<and>
   fst (close_instance ex_started 0 7) = Raise TypeError \<and>
   close_cb_calls (snd (close_instance ex_started 0 7)) = [0] \<and>
   map_of (instances (snd (close_instance ex_started 0 7))) 0 = None \<and>
   fst (instance_status ex_started 0) =
     Return (PDict [(''Name'', PStr ''rate-limit''), (''Id'', PInt 0), (''Config'', PDict []),
                    (''StartTime'', PFloat 5)], PNone)"
  by (simp add: ex_started_eval close_instance_def lock_defs close_instance_body_def close_cb_def
      del_item_def instance_getitem_def instance_status_def AList.delete_eq)

text \<open>
  C8. Whenever \<^verbatim>\<open>close_instance(id)\<close> has returned or raised (it was not left waiting
  for the instance lock), the id is not in the Instance Table, and
  \<^verbatim>\<open>instance_status(id)\<close> on the state it left returns the not-found pair
  \<^verbatim>\<open>(None, "instance #<id> not found")\<close>.
\<close>

theorem close_then_status_not_found:
  assumes "close_instance s iid now = (r, s')" and "r \<noteq> Block (WaitLock I_lock)"
  shows "map_of (instances s') iid = None \<and>
         instance_status s' iid =
           (Return (PNone, PStr (''instance #'' @ str_int iid @ '' not found'')), s')"
proof -
  have free: "0 < i_lock s"
    using assms close_blocked [of s iid now] by (cases "i_lock s = 0") auto
  have gone: "map_of (instances s') iid = None"
  proof (cases "map_of (instances s) iid")
    case None
    with free assms(1) show ?thesis by (simp add: close_absent)
  next
    case (Some ins)
    from close_present [OF free Some, of now] assms(1)
    have "s' = (close_cb iid ins now s)\<lparr>instances := AList.delete iid (instances s)\<rparr>"
      by simp
    then show ?thesis by (simp add: AList.delete_conv)
  qed
  then show ?thesis
    by (simp add: instance_status_def del: py_format.simps add: format_not_found)
qed

theorem close_then_status_not_found_witness:
  "close_instance ex_started 0 7 =
     (Raise TypeError,
      ex_started\<lparr>plugins := [(''rate-limit'', ex_module\<lparr>last_start_instance_time := 5,
                                                         last_close_instance_time := 7\<rparr>)],
                 instances := [], close_cb_calls := [0]\<rparr>)
   \<and> Raise TypeError \<noteq> (Block (WaitLock I_lock) :: result outcome)
   \<and> instance_status (snd (close_instance ex_started 0 7)) 0 =
       (Return (PNone, PStr ''instance #0 not found''), snd (close_instance ex_started 0 7))"
proof -
  have c: "close_instance ex_started 0 7 =
     (Raise TypeError,
      ex_started\<lparr>plugins := [(''rate-limit'', ex_module\<lparr>last_start_instance_time := 5,
                                                         last_close_instance_time := 7\<rparr>)],
                 instances := [], close_cb_calls := [0]\<rparr>)"
    by (simp add: ex_started_eval close_instance_def lock_defs close_instance_body_def
        close_cb_def del_item_def instance_getitem_def AList.delete_eq)
  from close_then_status_not_found [OF c] show ?thesis
    by (simp add: c str_int_def str_nat.simps)
qed

subsection \<open>The step aliases\<close>

text \<open>
  C9. For every entity of \<^verbatim>\<open>entities\<close>, calling \<^verbatim>\<open>step_<entity>\<close> is calling
  \<^verbatim>\<open>step\<close>, and so is calling \<^verbatim>\<open>step_multi_map\<close>: same outcome and same state,
  for every server state, request and message received.
\<close>

theorem step_aliases:
  "(\<forall>entity \<in> set entities. call_method (''step_'' @ entity) s data ret = step s data ret)
   \<and> call_method ''step_multi_map'' s data ret = step s data ret"
  by (simp add: call_method_def attrs_eval entities_def)

theorem step_aliases_witness:
  "''route'' \<in> set entities
   \<and> call_method ''step_route'' ex_started \<lparr>sd_EventId = 3, sd_Data = None\<rparr> None =
       (Raise (PluginServerException (PStr ''event id 3 not found'')), ex_started)
   \<and> call_method ''step_multi_map'' ex_started \<lparr>sd_EventId = 3, sd_Data = None\<rparr> None =
       (Raise (PluginServerException (PStr ''event id 3 not found'')), ex_started)"
  using step_aliases [of ex_started "\<lparr>sd_EventId = 3, sd_Data = None\<rparr>" None]
  by (simp add: entities_def step_def step_impl_def ex_started_eval
      raise_PluginServerException_def str_int_def str_nat.simps)

subsection \<open>Plugin information\<close>

text \<open>
  C4, as stated: for a registered name, \<^verbatim>\<open>get_plugin_info\<close> returns the declared
  phases and the declared schema verbatim. For the loaded plugin the value under
  \<^verbatim>\<open>Phases\<close> is the declared one, but the value under \<^verbatim>\<open>Schema\<close> is not
  the declared schema.
\<close>

theorem get_plugin_info_schema_counterexample:
  "map_of (plugins ex_server) ''rate-limit'' = Some ex_module \<and>
   returned_field ''Phases'' (fst (get_plugin_info ex_server ''rate-limit'')) =
     Some (mod_phases ex_module) \<and>
   returned_field ''Schema'' (fst (get_plugin_info ex_server ''rate-limit'')) \<noteq>
     Some (mod_schema ex_module)"
  by (simp add: get_plugin_info_def returned_field_def ex_defs)

text \<open>
  C4, amended: for a name that is not registered \<^verbatim>\<open>get_plugin_info\<close> raises and
  leaves the server as it was; for a registered name it returns the pair of the dict
  Name, Phases, Priority, Schema and \<^verbatim>\<open>None\<close>, where Phases and Priority are the
  definition's values and Schema is the record
  \<^verbatim>\<open>{name, fields: [{config: {type: "record", fields: <declared schema>}}]}\<close> that
  holds the declared schema.
\<close>

theorem get_plugin_info_projection:
  "(map_of (plugins s) name = None \<longrightarrow>
      (\<exists>ex. get_plugin_info s name = (Raise ex, s))) \<and>
   (\<forall>plugin. map_of (plugins s) name = Some plugin \<longrightarrow>
      get_plugin_info s name =
        (Return
           (PDict
              [(''Name'', PStr name),
               (''Phases'', mod_phases plugin),
               (''Priority'', mod_priority plugin),
               (''Schema'',
                  PDict
                    [(''name'', PStr name),
                     (''fields'',
                        PList [PDict [(''config'',
                                 PDict [(''type'', PStr ''record''),
                                        (''fields'', mod_schema plugin)])]])])],
            PNone),
         s))"
  by (simp add: get_plugin_info_def)

theorem get_plugin_info_projection_witness:
  "map_of (plugins ex_server) ''nope'' = None \<and>
   (\<exists>ex. get_plugin_info ex_server ''nope'' = (Raise ex, ex_server)) \<and>
   map_of (plugins ex_server) ''rate-limit'' = Some ex_module \<and>
   get_plugin_info ex_server ''rate-limit'' =
     (Return
        (PDict
           [(''Name'', PStr ''rate-limit''),
            (''Phases'', PList [PStr ''access'']),
            (''Priority'', PInt 0),
            (''Schema'',
               PDict
                 [(''name'', PStr ''rate-limit''),
                  (''fields'',
                     PList [PDict [(''config'',
                              PDict [(''type'', PStr ''record''),
                                     (''fields'',
                                        PList [PDict [(''limit'',
                                                 PDict [(''type'', PStr ''number'')])]])])]])])],
         PNone),
      ex_server)"
proof -
  have n: "map_of (plugins ex_server) ''nope'' = None" by (simp add: ex_defs)
  have p: "map_of (plugins ex_server) ''rate-limit'' = Some ex_module" by (simp add: ex_defs)
  from get_plugin_info_projection [of ex_server "''nope''"] n
  have a: "\<exists>ex. get_plugin_info ex_server ''nope'' = (Raise ex, ex_server)" by blast
  from get_plugin_info_projection [of ex_server "''rate-limit''"] p
  have b: "get_plugin_info ex_server ''rate-limit'' =
        (Return
           (PDict
              [(''Name'', PStr ''rate-limit''),
               (''Phases'', mod_phases ex_module),
               (''Priority'', mod_priority ex_module),
               (''Schema'',
                  PDict
                    [(''name'', PStr ''rate-limit''),
                     (''fields'',
                        PList [PDict [(''config'',
                                 PDict [(''type'', PStr ''record''),
                                        (''fields'', mod_schema ex_module)])]])])],
            PNone),
         ex_server)" by blast
  show ?thesis using n p a by (simp add: b) (simp add: ex_module_def)
qed

subsection \<open>Starting an instance\<close>

text \<open>
  C5, as stated: a \<^verbatim>\<open>start_instance\<close> for an unknown name, or with a payload that
  the decoder rejects, hands an explicit (result, error) pair back. Both calls raise
  instead: the outcome is an exception, not a returned pair.
\<close>

theorem start_instance_raises_counterexample:
  "map_of (plugins ex_server) ''nope'' = None \<and>
   start_instance ex_server ex_loads \<lparr>cfg_Name = ''nope'', cfg_Config = ''{}''\<rparr> 5 6
     = (Raise TypeError, ex_server) \<and>
   ex_loads ''{'' = Inl ValueError \<and>
   start_instance ex_server ex_loads \<lparr>cfg_Name = ''rate-limit'', cfg_Config = ''{''\<rparr> 5 6
     = (Raise ValueError, ex_server)"
  by (simp add: start_instance_def lock_defs start_instance_body_def format_not_init ex_defs)

text \<open>
  C5, amended: when the instance lock is free, a \<^verbatim>\<open>start_instance\<close> for an unknown
  name raises an exception, and one for a known name whose payload the decoder rejects
  raises the decoder's exception; in both cases no pair is returned and the server state
  (Instance Table and id counter included) is as before the call.
\<close>

theorem start_instance_failures_raise:
  assumes "0 < i_lock s"
  shows "(map_of (plugins s) (cfg_Name c) = None \<longrightarrow>
            (\<exists>ex. start_instance s loads c t_new t_ret = (Raise ex, s))) \<and>
         (\<forall>ex. map_of (plugins s) (cfg_Name c) \<noteq> None \<and> loads (cfg_Config c) = Inl ex \<longrightarrow>
            start_instance s loads c t_new t_ret = (Raise ex, s))"
  using assms by (auto simp add: start_unknown start_malformed)

theorem start_instance_failures_raise_witness:
  "0 < i_lock ex_server \<and>
   map_of (plugins ex_server) (cfg_Name \<lparr>cfg_Name = ''nope'', cfg_Config = ''{}''\<rparr>) = None \<and>
   (\<exists>ex. start_instance ex_server ex_loads \<lparr>cfg_Name = ''nope'', cfg_Config = ''{}''\<rparr> 5 6 = (Raise ex, ex_server)) \<and>
   map_of (plugins ex_server) (cfg_Name \<lparr>cfg_Name = ''rate-limit'', cfg_Config = ''{''\<rparr>) \<noteq> None \<and>
   ex_loads (cfg_Config \<lparr>cfg_Name = ''rate-limit'', cfg_Config = ''{''\<rparr>) = Inl ValueError \<and>
   start_instance ex_server ex_loads \<lparr>cfg_Name = ''rate-limit'', cfg_Config = ''{''\<rparr> 5 6 = (Raise ValueError, ex_server)"
proof -
  have l: "0 < i_lock ex_server" by (simp add: ex_defs)
  have n: "map_of (plugins ex_server) (cfg_Name \<lparr>cfg_Name = ''nope'', cfg_Config = ''{}''\<rparr>) = None"
    by (simp add: ex_defs)
  have p: "map_of (plugins ex_server) (cfg_Name \<lparr>cfg_Name = ''rate-limit'', cfg_Config = ''{''\<rparr>) \<noteq> None"
    by (simp add: ex_defs)
  have d: "ex_loads (cfg_Config \<lparr>cfg_Name = ''rate-limit'', cfg_Config = ''{''\<rparr>) = Inl ValueError"
    by (simp add: ex_defs)
  from start_instance_failures_raise [OF l, of "\<lparr>cfg_Name = ''nope'', cfg_Config = ''{}''\<rparr>" ex_loads 5 6] n
  have a: "\<exists>ex. start_instance ex_server ex_loads \<lparr>cfg_Name = ''nope'', cfg_Config = ''{}''\<rparr> 5 6 = (Raise ex, ex_server)"
    by blast
  from start_instance_failures_raise [OF l, of "\<lparr>cfg_Name = ''rate-limit'', cfg_Config = ''{''\<rparr>" ex_loads 5 6] p d
  have b: "start_instance ex_server ex_loads \<lparr>cfg_Name = ''rate-limit'', cfg_Config = ''{''\<rparr> 5 6 = (Raise ValueError, ex_server)"
    by blast
  show ?thesis using l n p d a b by blast
qed

subsection \<open>The last-active time of an instance\<close>






subsection \<open>Locks and channel waits\<close>

text \<open>
  C3, as stated: no lock is held while its holder is blocked on a channel receive. A
  \<^verbatim>\<open>handle_event\<close> whose worker has sent nothing yet is blocked in the receive with
  the event lock taken (its counter is 0), and a second \<^verbatim>\<open>handle_event\<close> waits for
  that lock.
\<close>

theorem handle_event_waits_with_lock_counterexample:
  "e_lock ex_started = 1 \<and>
   fst (handle_event ex_started ex_event 10 None 11) = Block (WaitRecv 0) \<and>
   e_lock (snd (handle_event ex_started ex_event 10 None 11)) = 0 \<and>
   fst (handle_event (snd (handle_event ex_started ex_event 10 None 11)) ex_event 12 (Some ex_call) 13)
     = Block (WaitLock E_lock)"
  by (simp add: ex_started_eval ex_event_def handle_event_def lock_defs handle_event_body_def
      Let_def getattr_cls_def)

text \<open>
  C3, amended: a call that is blocked on a channel receive holds no unit of the
  Instance Table lock; \<^verbatim>\<open>step\<close>, \<^verbatim>\<open>step_error\<close> and the aliases take neither
  lock (they never wait for one, and both counters are after the call what they were
  before it, also when the call is left blocked in its receive), so their send and
  their receive run with no lock held; but a \<^verbatim>\<open>handle_event\<close> that is blocked on
  its channel receive holds the Continuation Table lock, which it took on entry.
\<close>

theorem locks_while_blocked_on_channel:
  "(\<forall>eid s'. exec loads c s = (Block (WaitRecv eid), s') \<longrightarrow> i_lock s' = i_lock s) \<and>
   i_lock (snd (call_method name s data ret)) = i_lock s \<and>
   e_lock (snd (call_method name s data ret)) = e_lock s \<and>
   (\<forall>l. fst (call_method name s data ret) \<noteq> Block (WaitLock l)) \<and>
   (\<forall>eid s'. handle_event s ev t1 r t2 = (Block (WaitRecv eid), s') \<longrightarrow>
      0 < e_lock s \<and> e_lock s' = e_lock s - 1)"
proof (intro conjI allI impI)
  fix eid s'
  assume "exec loads c s = (Block (WaitRecv eid), s')"
  then show "i_lock s' = i_lock s" by (rule exec_recv_i_lock)
next
  show "i_lock (snd (call_method name s data ret)) = i_lock s" by (rule call_method_frame)
  show "e_lock (snd (call_method name s data ret)) = e_lock s" by (rule call_method_frame)
next
  fix l
  show "fst (call_method name s data ret) \<noteq> Block (WaitLock l)"
    by (rule call_method_no_lock_wait)
next
  fix eid s'
  assume h: "handle_event s ev t1 r t2 = (Block (WaitRecv eid), s')"
  then show "0 < e_lock s" and "e_lock s' = e_lock s - 1"
    by (rule_tac s = s and ev = ev and ?t1.0 = t1 and r = r and ?t2.0 = t2 in handle_event_cases;
        auto)+
qed

theorem locks_while_blocked_on_channel_witness:
  "exec ex_loads (Handle_event ex_event 10 None 11) ex_started = (Block (WaitRecv 0), ex_waiting) \<and>
   i_lock ex_started = 1 \<and> e_lock ex_started = 1 \<and>
   i_lock ex_waiting = 1 \<and> e_lock ex_waiting = 0 \<and>
   map_of (events ex_waiting) 0 =
     Some \<lparr>ch_pipe = False, ch_handler = ''access'', ch_sent = []\<rparr> \<and>
   call_method ''step'' ex_waiting \<lparr>sd_EventId = 0, sd_Data = None\<rparr> None =
     (Block (WaitRecv 0),
      ex_waiting\<lparr>events := [(0, \<lparr>ch_pipe = False, ch_handler = ''access'',
                                   ch_sent = [PTuple [PNone, PNone]]\<rparr>)]\<rparr>) \<and>
   fst (call_method ''step'' ex_waiting \<lparr>sd_EventId = 0, sd_Data = None\<rparr> (Some ex_call)) =
     Return (PDict [(''Data'', ex_call), (''EventId'', PInt 0)], PNone) \<and>
   i_lock (snd (call_method ''step'' ex_waiting \<lparr>sd_EventId = 0, sd_Data = None\<rparr> None)) = 1 \<and>
   e_lock (snd (call_method ''step'' ex_waiting \<lparr>sd_EventId = 0, sd_Data = None\<rparr> None)) = 0 \<and>
   fst (call_method ''step'' ex_waiting \<lparr>sd_EventId = 0, sd_Data = None\<rparr> None)
     \<noteq> Block (WaitLock E_lock)"
proof -
  have i: "map_of (instances ex_started) (ev_InstanceId ex_event) = Some ex_instance"
    by (simp add: ex_started_eval ex_event_def ex_instance_def)
  have l: "0 < e_lock ex_started" "e_lock ex_started = 1" "i_lock ex_started = 1"
    by (simp_all add: ex_started_eval)
  have p: "ev_EventName ex_event \<in> set (ins_cls ex_instance)"
    by (simp add: ex_event_def ex_instance_def)
  have id: "event_id ex_started = 0" by (simp add: ex_started_eval)
  have w: "handle_event ex_started ex_event 10 None 11 = (Block (WaitRecv 0), ex_waiting)"
    by (simp add: ex_waiting_def handle_waiting [OF l(1) i p] id)
  then have x: "exec ex_loads (Handle_event ex_event 10 None 11) ex_started =
     (Block (WaitRecv 0), ex_waiting)" by simp
  have ev: "events ex_waiting = [(0, \<lparr>ch_pipe = False, ch_handler = ''access'', ch_sent = []\<rparr>)]"
    by (simp add: ex_waiting_def handle_waiting [OF l(1) i p]) (simp add: ex_started_eval ex_event_def)
  note t1 = locks_while_blocked_on_channel [of ex_loads "Handle_event ex_event 10 None 11"
      ex_started "''step''" "\<lparr>sd_EventId = 0, sd_Data = None\<rparr>" None ex_event 10 None 11]
  note t2 = locks_while_blocked_on_channel [of ex_loads "Handle_event ex_event 10 None 11"
      ex_waiting "''step''" "\<lparr>sd_EventId = 0, sd_Data = None\<rparr>" None ex_event 10 None 11]
  from t1 x l have a: "i_lock ex_waiting = 1" by auto
  from t1 w l have b: "e_lock ex_waiting = 0" by auto
  from t2 a b
  have c: "i_lock (snd (call_method ''step'' ex_waiting \<lparr>sd_EventId = 0, sd_Data = None\<rparr> None)) = 1"
    "e_lock (snd (call_method ''step'' ex_waiting \<lparr>sd_EventId = 0, sd_Data = None\<rparr> None)) = 0"
    "fst (call_method ''step'' ex_waiting \<lparr>sd_EventId = 0, sd_Data = None\<rparr> None)
       \<noteq> Block (WaitLock E_lock)"
    by auto
  have d: "call_method ''step'' ex_waiting \<lparr>sd_EventId = 0, sd_Data = None\<rparr> None =
     (Block (WaitRecv 0),
      ex_waiting\<lparr>events := [(0, \<lparr>ch_pipe = False, ch_handler = ''access'',
                                   ch_sent = [PTuple [PNone, PNone]]\<rparr>)]\<rparr>)"
    by (simp add: call_method_def attrs_eval step_def step_impl_def ev)
  have e: "fst (call_method ''step'' ex_waiting \<lparr>sd_EventId = 0, sd_Data = None\<rparr> (Some ex_call)) =
     Return (PDict [(''Data'', ex_call), (''EventId'', PInt 0)], PNone)"
    by (simp add: call_method_def attrs_eval step_def step_impl_def ev MSG_RET_def ex_call_def)
  from x l a b c d e ev show ?thesis by simp
qed



subsection \<open>The lifetime of a continuation\<close>

text \<open>
  C6. Let \<^verbatim>\<open>handle_event\<close> return with event id \<open>eid\<close>. Then the Continuation
  Table contains \<open>eid\<close> when the begin is complete and after every further call, as
  long as no call is a resume of \<open>eid\<close> that receives the terminal sentinel (the calls
  may be resumes of \<open>eid\<close> and any other calls of the server). The resume of \<open>eid\<close>
  that receives the sentinel, by \<^verbatim>\<open>step\<close>, \<^verbatim>\<open>step_error\<close> or an alias, returns
  the sentinel as Data, and the table does not contain \<open>eid\<close> when it has returned,
  nor after any calls that follow.
\<close>

theorem continuation_table_lifetime:
  assumes "handle_event s ev t1 (Some m) t2 = (Return b, s1)"
    and "\<forall>c \<in> set cs. \<not> is_terminal_for (event_id s) c"
    and "map_of PluginServer_attrs name \<noteq> None"
    and "sd_EventId data = event_id s"
  shows "returned_field ''EventId'' (Return b) = Some (PInt (event_id s)) \<and>
     (\<forall>n. map_of (events (snd (run loads (take n cs) s1))) (event_id s) \<noteq> None) \<and>
     fst (call_method name (snd (run loads cs s1)) data (Some MSG_RET)) =
       Return (PDict [(''Data'', MSG_RET), (''EventId'', PInt (event_id s))], PNone) \<and>
     (\<forall>cs'. map_of (events (snd (run loads cs'
                (snd (call_method name (snd (run loads cs s1)) data (Some MSG_RET))))))
              (event_id s) = None)"
proof -
  let ?eid = "event_id s"
  from assms(1)
  have b: "b = (PDict [(''Data'', m), (''EventId'', PInt ?eid)], PNone)"
    and in1: "map_of (events s1) ?eid \<noteq> None"
    and id1: "event_id s1 = ?eid + 1"
    by (rule_tac s = s and ev = ev and ?t1.0 = t1 and r = "Some m" and ?t2.0 = t2
          in handle_event_cases; auto simp add: update_conv' raise_PluginServerException_def
          split: sum.splits)+
  have first: "returned_field ''EventId'' (Return b) = Some (PInt ?eid)"
    by (simp add: b returned_field_def)
  have during: "map_of (events (snd (run loads (take n cs) s1))) ?eid \<noteq> None" for n
  proof (rule run_events_keep [OF in1])
    show "\<forall>c \<in> set (take n cs). \<not> is_terminal_for ?eid c"
      using assms(2) by (auto dest: in_set_takeD)
  qed
  let ?s2 = "snd (run loads cs s1)"
  from during [of "length cs"] obtain ch where ch: "map_of (events ?s2) ?eid = Some ch" by auto
  from assms(3) have m: "call_method name ?s2 data (Some MSG_RET) = step_impl ?s2 data False (Some MSG_RET)
      \<or> call_method name ?s2 data (Some MSG_RET) = step_impl ?s2 data True (Some MSG_RET)"
    by (auto simp add: call_method_def attrs_eval step_def step_error_def split: if_splits)
  let ?s3 = "snd (call_method name ?s2 data (Some MSG_RET))"
  from ch assms(4) have ch': "map_of (events ?s2) (sd_EventId data) = Some ch" by simp
  have last: "fst (call_method name ?s2 data (Some MSG_RET)) =
       Return (PDict [(''Data'', MSG_RET), (''EventId'', PInt ?eid)], PNone)"
    using m step_outcome [OF ch', of False "Some MSG_RET"] step_outcome [OF ch', of True "Some MSG_RET"]
      assms(4) by auto
  have out3: "map_of (events ?s3) ?eid = None"
    using m step_events [OF ch', of False "Some MSG_RET" ?eid]
      step_events [OF ch', of True "Some MSG_RET" ?eid] assms(4) by auto
  have "?eid < event_id s1" using id1 by simp
  also have "event_id s1 \<le> event_id ?s2" by (rule run_event_id)
  also have "event_id ?s2 = event_id ?s3" by (simp add: call_method_frame)
  finally have lt3: "?eid < event_id ?s3" .
  have after: "map_of (events (snd (run loads cs' ?s3))) ?eid = None" for cs'
    by (rule run_events_out [OF out3 lt3])
  from first during last after show ?thesis by blast
qed

theorem continuation_table_lifetime_witness:
  "handle_event ex_started ex_event 10 (Some ex_call) 11 =
     (Return (PDict [(''Data'', ex_call), (''EventId'', PInt 0)], PNone), ex_begun) \<and>
   map (is_terminal_for 0) ex_resumes = [False, False, False] \<and>
   map_of (events ex_begun) 0 \<noteq> None \<and>
   map_of (events (snd (run ex_loads (take 1 ex_resumes) ex_begun))) 0 \<noteq> None \<and>
   map_of (events (snd (run ex_loads ex_resumes ex_begun))) 0 \<noteq> None \<and>
   fst (call_method ''step'' (snd (run ex_loads ex_resumes ex_begun))
          \<lparr>sd_EventId = 0, sd_Data = None\<rparr> (Some MSG_RET)) =
     Return (PDict [(''Data'', MSG_RET), (''EventId'', PInt 0)], PNone) \<and>
   map_of (events ex_retired) 0 = None \<and>
   map_of (events (snd (run ex_loads [Handle_event ex_event 12 (Some ex_call) 13] ex_retired))) 0
     = None"
proof -
  have i: "map_of (instances ex_started) (ev_InstanceId ex_event) = Some ex_instance"
    by (simp add: ex_started_eval ex_event_def ex_instance_def)
  have l: "0 < e_lock ex_started" by (simp add: ex_started_eval)
  have p: "ev_EventName ex_event \<in> set (ins_cls ex_instance)"
    by (simp add: ex_event_def ex_instance_def)
  have id: "event_id ex_started = 0" by (simp add: ex_started_eval)
  have h: "handle_event ex_started ex_event 10 (Some ex_call) 11 =
     (Return (PDict [(''Data'', ex_call), (''EventId'', PInt 0)], PNone), ex_begun)"
    by (simp add: ex_begun_def handle_returns [OF l i p] id)
  have t: "map (is_terminal_for 0) ex_resumes = [False, False, False]"
    by (simp add: ex_resumes_def is_terminal_for_def MSG_RET_def ex_call_def)
  then have t': "\<forall>c \<in> set ex_resumes. \<not> is_terminal_for (event_id ex_started) c"
    by (simp add: id ex_resumes_def)
  have n: "map_of PluginServer_attrs ''step'' \<noteq> None" by (simp add: attrs_eval)
  have d: "sd_EventId \<lparr>sd_EventId = 0, sd_Data = None\<rparr> = event_id ex_started"
    by (simp add: id)
  note w = continuation_table_lifetime [OF h t' n d, of ex_loads, unfolded id]
  from w have w0: "map_of (events (snd (run ex_loads (take 0 ex_resumes) ex_begun))) 0 \<noteq> None"
    and w1: "map_of (events (snd (run ex_loads (take 1 ex_resumes) ex_begun))) 0 \<noteq> None"
    and w3: "map_of (events (snd (run ex_loads (take 3 ex_resumes) ex_begun))) 0 \<noteq> None"
    by blast+
  from w have w4: "map_of (events (snd (run ex_loads [] ex_retired))) 0 = None"
    and w5: "map_of (events (snd (run ex_loads [Handle_event ex_event 12 (Some ex_call) 13]
        ex_retired))) 0 = None"
    unfolding ex_retired_def by blast+
  from w have w6: "fst (call_method ''step'' (snd (run ex_loads ex_resumes ex_begun))
          \<lparr>sd_EventId = 0, sd_Data = None\<rparr> (Some MSG_RET)) =
     Return (PDict [(''Data'', MSG_RET), (''EventId'', PInt 0)], PNone)" by blast
  have len: "take 3 ex_resumes = ex_resumes" by (simp add: ex_resumes_def)
  from h t w0 w1 w3 w4 w5 w6 len show ?thesis by simp
qed

end
